theory Spec2Isabelle
  imports Complex_Main
begin

section \<open>Parsed JSON values and the Python operations the program applies to them\<close>

text \<open>
  \<^verbatim>\<open>validate_quiz_schema\<close> and \<^verbatim>\<open>build_pdf\<close> receive whatever \<^verbatim>\<open>json.loads\<close> returned:
  \<^verbatim>\<open>None\<close>, a \<^verbatim>\<open>bool\<close>, an \<^verbatim>\<open>int\<close>, a \<^verbatim>\<open>float\<close>, a \<^verbatim>\<open>str\<close>, a \<^verbatim>\<open>list\<close> or a \<^verbatim>\<open>dict\<close>
  with \<^verbatim>\<open>str\<close> keys. A float is a mantissa and a binary exponent, an infinity or NaN
  (\<^verbatim>\<open>json.loads\<close> reads all of them); the program does no arithmetic on one. A dict is written as the list of its items in insertion order; a key
  that occurs twice has the value of its last occurrence, as in a Python dict display
  and in \<^verbatim>\<open>json.loads\<close>.
\<close>

datatype pyfloat = Finite int int | PosInf | NegInf | NaN

datatype json =
    JNull
  | JBool bool
  | JInt int
  | JFloat pyfloat
  | JStr string
  | JList "json list"
  | JDict "(string \<times> json) list"

text \<open>
  The exceptions that the two functions can raise. \<^verbatim>\<open>ValueError\<close> carries the message the
  validator formats, \<^verbatim>\<open>KeyError\<close> the missing key; the interpreter's own wording of a
  \<^verbatim>\<open>TypeError\<close> or \<^verbatim>\<open>AttributeError\<close> differs between Python versions and is not kept.
  These four are raised by statements of the program itself. \<open>LibraryError\<close> is an
  exception raised inside a constructor of the layout library that the program calls;
  its class and message are the library's (a \<^verbatim>\<open>ValueError\<close> of the paragraph parser for
  unbalanced markup, an \<^verbatim>\<open>AttributeError\<close> for a text that is not a string) and are not
  kept.
\<close>

datatype py_error =
    ValueError string
  | TypeError
  | KeyError string
  | AttributeError
  | LibraryError

fun dict_lookup :: "(string \<times> 'v) list \<Rightarrow> string \<Rightarrow> 'v option" where
  "dict_lookup [] k = None"
| "dict_lookup ((k', v) # kvs) k =
     (case dict_lookup kvs k of
        Some x \<Rightarrow> Some x
      | None \<Rightarrow> (if k' = k then Some v else None))"

fun startswith :: "string \<Rightarrow> string \<Rightarrow> bool" where
  "startswith s [] = True"
| "startswith [] (p # ps) = False"
| "startswith (c # cs) (p # ps) = (c = p \<and> startswith cs ps)"

text \<open>\<^verbatim>\<open>needle in hay\<close> on two strings: \<^verbatim>\<open>needle\<close> occurs as a contiguous substring.\<close>

fun str_contains :: "string \<Rightarrow> string \<Rightarrow> bool" where
  "str_contains [] needle = (needle = [])"
| "str_contains (c # cs) needle = (startswith (c # cs) needle \<or> str_contains cs needle)"

text \<open>
  \<^verbatim>\<open>k in v\<close> for a string \<^verbatim>\<open>k\<close>: key membership on a dict, element membership on a list,
  substring search on a string, and \<^verbatim>\<open>TypeError\<close> (argument is not iterable) on
  \<^verbatim>\<open>None\<close>, a bool and a number.
\<close>

fun py_in :: "string \<Rightarrow> json \<Rightarrow> py_error + bool" where
  "py_in k (JDict kvs) = Inr (dict_lookup kvs k \<noteq> None)"
| "py_in k (JList xs) = Inr (JStr k \<in> set xs)"
| "py_in k (JStr s) = Inr (str_contains s k)"
| "py_in k JNull = Inl TypeError"
| "py_in k (JBool b) = Inl TypeError"
| "py_in k (JInt i) = Inl TypeError"
| "py_in k (JFloat f) = Inl TypeError"

text \<open>
  \<^verbatim>\<open>v[k]\<close> for a string \<^verbatim>\<open>k\<close>: the value on a dict, \<^verbatim>\<open>KeyError\<close> when the key is absent,
  and \<^verbatim>\<open>TypeError\<close> on everything else (a list or string index must be an integer, the
  other values are not subscriptable).
\<close>

fun py_getitem :: "json \<Rightarrow> string \<Rightarrow> py_error + json" where
  "py_getitem (JDict kvs) k =
     (case dict_lookup kvs k of None \<Rightarrow> Inl (KeyError k) | Some v \<Rightarrow> Inr v)"
| "py_getitem (JList xs) k = Inl TypeError"
| "py_getitem (JStr s) k = Inl TypeError"
| "py_getitem JNull k = Inl TypeError"
| "py_getitem (JBool b) k = Inl TypeError"
| "py_getitem (JInt i) k = Inl TypeError"
| "py_getitem (JFloat f) k = Inl TypeError"

text \<open>
  \<^verbatim>\<open>v.get(k, default)\<close>: only a dict has the method; on any other JSON value the
  attribute lookup raises \<^verbatim>\<open>AttributeError\<close>.
\<close>

fun py_get :: "json \<Rightarrow> string \<Rightarrow> json \<Rightarrow> py_error + json" where
  "py_get (JDict kvs) k dflt =
     Inr (case dict_lookup kvs k of None \<Rightarrow> dflt | Some v \<Rightarrow> v)"
| "py_get (JList xs) k dflt = Inl AttributeError"
| "py_get (JStr s) k dflt = Inl AttributeError"
| "py_get JNull k dflt = Inl AttributeError"
| "py_get (JBool b) k dflt = Inl AttributeError"
| "py_get (JInt i) k dflt = Inl AttributeError"
| "py_get (JFloat f) k dflt = Inl AttributeError"

text \<open>
  The keys of a dict in iteration order: each key once, at the place of its first
  occurrence.
\<close>

fun dict_keys :: "(string \<times> 'v) list \<Rightarrow> string list" where
  "dict_keys [] = []"
| "dict_keys ((k, v) # kvs) = k # filter (\<lambda>k'. k' \<noteq> k) (dict_keys kvs)"

text \<open>
  What a \<^verbatim>\<open>for\<close> loop iterates over: the elements of a list, the keys of a dict, the
  one-character strings of a string; the other values are not iterable.
\<close>

fun py_iter :: "json \<Rightarrow> py_error + json list" where
  "py_iter (JList xs) = Inr xs"
| "py_iter (JDict kvs) = Inr (map JStr (dict_keys kvs))"
| "py_iter (JStr s) = Inr (map (\<lambda>c. JStr [c]) s)"
| "py_iter JNull = Inl TypeError"
| "py_iter (JBool b) = Inl TypeError"
| "py_iter (JInt i) = Inl TypeError"
| "py_iter (JFloat f) = Inl TypeError"

subsection \<open>Display text\<close>

definition digit_char :: "nat \<Rightarrow> char" where
  "digit_char d = char_of (48 + d)"

fun show_nat :: "nat \<Rightarrow> string" where
  "show_nat n = (if n < 10 then [digit_char n] else show_nat (n div 10) @ [digit_char (n mod 10)])"

declare show_nat.simps [simp del]

definition show_int :: "int \<Rightarrow> string" where
  "show_int i = (if i < 0 then CHR ''-'' # show_nat (nat (- i)) else show_nat (nat i))"

text \<open>
  \<^verbatim>\<open>str(v)\<close>, which is also what an f-string field \<^verbatim>\<open>{v}\<close> formats: a string is itself,
  an integer its decimal digits, \<^verbatim>\<open>True\<close>, \<^verbatim>\<open>False\<close> and \<^verbatim>\<open>None\<close> their names. The text of
  a float, a list or a dict is the interpreter's \<^verbatim>\<open>repr\<close> (shortest round-trip digits,
  quoting of nested strings); it is the parameter \<open>r\<close>, and every theorem below holds
  for every \<open>r\<close>.
\<close>

fun py_str :: "(json \<Rightarrow> string) \<Rightarrow> json \<Rightarrow> string" where
  "py_str r (JStr s) = s"
| "py_str r (JInt i) = show_int i"
| "py_str r (JBool b) = (if b then ''True'' else ''False'')"
| "py_str r JNull = ''None''"
| "py_str r (JFloat f) = r (JFloat f)"
| "py_str r (JList xs) = r (JList xs)"
| "py_str r (JDict kvs) = r (JDict kvs)"

section \<open>The schema validator\<close>

definition required_top :: "string list" where
  "required_top = [''title'', ''subtitle'', ''questions'', ''solution_table'']"

text \<open>The loop over \<^verbatim>\<open>required_top\<close>: the first key that is not in \<^verbatim>\<open>data\<close> is reported.\<close>

fun check_required_top :: "string list \<Rightarrow> json \<Rightarrow> py_error + unit" where
  "check_required_top [] data = Inr ()"
| "check_required_top (k # ks) data =
     (case py_in k data of
        Inl e \<Rightarrow> Inl e
      | Inr present \<Rightarrow>
          if present then check_required_top ks data
          else Inl (ValueError (''Missing top-level key: '' @ k)))"

text \<open>A word between apostrophes, which a string literal here cannot hold.\<close>

definition quoted :: "string \<Rightarrow> string" where
  "quoted s = CHR 0x27 # s @ [CHR 0x27]"

definition missing_fields_msg :: "nat \<Rightarrow> string" where
  "missing_fields_msg i =
     ''Question '' @ show_nat i @ '' must have '' @ quoted ''text'' @ '' and '' @ quoted ''options''"

definition bad_options_msg :: "nat \<Rightarrow> string" where
  "bad_options_msg i = ''Question '' @ show_nat i @ '' options must include A, B, C, D''"

definition option_letters :: "string list" where
  "option_letters = [''A'', ''B'', ''C'', ''D'']"

text \<open>
  \<^verbatim>\<open>not isinstance(opts, dict) or not all(k in opts for k in ("A", "B", "C", "D"))\<close>:
  the membership tests run only on a dict, where they cannot raise.
\<close>

fun options_incomplete :: "json \<Rightarrow> bool" where
  "options_incomplete (JDict od) = (\<not> list_all (\<lambda>k. dict_lookup od k \<noteq> None) option_letters)"
| "options_incomplete v = True"

text \<open>
  The body of the loop over the questions, for the question at 1-based position \<open>i\<close>.
  The \<^verbatim>\<open>or\<close> of the first test does not evaluate \<^verbatim>\<open>"options" not in q\<close> when
  \<^verbatim>\<open>"text" not in q\<close> already holds.
\<close>

definition check_question :: "nat \<Rightarrow> json \<Rightarrow> py_error + unit" where
  "check_question i q =
     (case py_in ''text'' q of
        Inl e \<Rightarrow> Inl e
      | Inr has_text \<Rightarrow>
          if \<not> has_text then Inl (ValueError (missing_fields_msg i))
          else
            (case py_in ''options'' q of
               Inl e \<Rightarrow> Inl e
             | Inr has_options \<Rightarrow>
                 if \<not> has_options then Inl (ValueError (missing_fields_msg i))
                 else
                   (case py_getitem q ''options'' of
                      Inl e \<Rightarrow> Inl e
                    | Inr opts \<Rightarrow>
                        if options_incomplete opts then Inl (ValueError (bad_options_msg i))
                        else Inr ())))"

text \<open>\<^verbatim>\<open>for i, q in enumerate(data["questions"], start=1)\<close>, stopping at the first raise.\<close>

fun check_questions :: "nat \<Rightarrow> json list \<Rightarrow> py_error + unit" where
  "check_questions i [] = Inr ()"
| "check_questions i (q # qs) =
     (case check_question i q of
        Inl e \<Rightarrow> Inl e
      | Inr u \<Rightarrow> check_questions (Suc i) qs)"

text \<open>
  \<^verbatim>\<open>validate_quiz_schema\<close>. The source evaluates \<^verbatim>\<open>data["questions"]\<close> three times and
  nothing changes \<^verbatim>\<open>data\<close> in between, so the value is looked up once.
\<close>

definition validate_quiz_schema :: "json \<Rightarrow> py_error + bool" where
  "validate_quiz_schema data =
     (case check_required_top required_top data of
        Inl e \<Rightarrow> Inl e
      | Inr u \<Rightarrow>
          (case py_getitem data ''questions'' of
             Inl e \<Rightarrow> Inl e
           | Inr questions \<Rightarrow>
               (case questions of
                  JList qs \<Rightarrow>
                    if qs = [] then Inl (ValueError ''questions must be a non-empty list'')
                    else
                      (case check_questions 1 qs of
                         Inl e \<Rightarrow> Inl e
                       | Inr u' \<Rightarrow>
                           (case py_getitem data ''solution_table'' of
                              Inl e \<Rightarrow> Inl e
                            | Inr (JList rows) \<Rightarrow> Inr True
                            | Inr other \<Rightarrow> Inl (ValueError ''solution_table must be a list'')))
                | other \<Rightarrow> Inl (ValueError ''questions must be a non-empty list''))))"

section \<open>The document assembler\<close>

text \<open>
  \<^verbatim>\<open>build_pdf\<close> fills the list \<^verbatim>\<open>story\<close> with flowables of the layout library and hands it
  to \<^verbatim>\<open>SimpleDocTemplate.build\<close>. The library is not part of the program: a flowable is
  recorded as the constructor call that made it, a paragraph style by the variable that
  holds it. The text of a title or subtitle paragraph is the JSON value itself; every
  other paragraph gets a formatted string.

  The constructor \<^verbatim>\<open>Paragraph\<close> reads its text when it is called, while the story is being
  built, and raises on a text it does not take: a value that is not a string, a string
  with unbalanced markup. Which texts it takes is the library's matter and is the
  parameter \<open>lib\<close>: \<open>lib text st\<close> says that \<^verbatim>\<open>Paragraph(text, st)\<close> returns. When it does not,
  the call raises \<open>LibraryError\<close>. \<^verbatim>\<open>Spacer\<close>, \<^verbatim>\<open>PageBreak\<close> and \<^verbatim>\<open>Table\<close> are given no text
  to parse and are recorded as calls. Pagination and the writing of the file, which
  happen in \<^verbatim>\<open>doc.build\<close>, are outside the embedding.
\<close>

datatype style = title_style | subtitle_style | h2 | question_style | option_style

text \<open>A length: a number of points, or a multiple of the library's constant \<^verbatim>\<open>cm\<close>.\<close>

datatype dim = Pt int | Cm rat

datatype cmd_arg = Num rat | Colour string | Word string

type_synonym table_cmd = "string \<times> (int \<times> int) \<times> (int \<times> int) \<times> cmd_arg list"

datatype flowable =
    Spacer dim dim
  | Paragraph json style
  | PageBreak
  | Table "string list list" "dim list" "table_cmd list"

definition table_style :: "table_cmd list" where
  "table_style =
     [(''GRID'', (0, 0), (-1, -1), [Num (1 / 2), Colour ''grey'']),
      (''BACKGROUND'', (0, 0), (-1, 0), [Colour ''lightgrey'']),
      (''ALIGN'', (0, 0), (-1, 0), [Word ''CENTER'']),
      (''VALIGN'', (0, 0), (-1, -1), [Word ''TOP'']),
      (''LEFTPADDING'', (0, 0), (-1, -1), [Num 6]),
      (''RIGHTPADDING'', (0, 0), (-1, -1), [Num 6]),
      (''FONTSIZE'', (0, 0), (-1, -1), [Num 10])]"

definition col_widths :: "dim list" where
  "col_widths = [Cm (3 / 2), Cm 2, Cm 13]"

text \<open>The call \<^verbatim>\<open>Paragraph(text, st)\<close>: the flowable, or the exception of the library.\<close>

definition make_paragraph :: "(json \<Rightarrow> style \<Rightarrow> bool) \<Rightarrow> json \<Rightarrow> style \<Rightarrow> py_error + flowable" where
  "make_paragraph lib text st =
     (if lib text st then Inr (Paragraph text st) else Inl LibraryError)"

text \<open>
  The body of the loop over the questions (lines 139 to 145), statement by statement:
  each paragraph is made as soon as its text is read, so the stem is made before
  \<^verbatim>\<open>q["options"]\<close> is read, and the paragraph of A before \<^verbatim>\<open>opts["B"]\<close> is. A raise leaves
  the function, and the story built so far is lost with it.
\<close>

definition append_question ::
  "(json \<Rightarrow> style \<Rightarrow> bool) \<Rightarrow> (json \<Rightarrow> string) \<Rightarrow> flowable list \<Rightarrow> nat \<Rightarrow> json \<Rightarrow>
     py_error + flowable list" where
  "append_question lib r story idx q =
     (case py_getitem q ''text'' of
        Inl e \<Rightarrow> Inl e
      | Inr text \<Rightarrow>
     (case make_paragraph lib (JStr (show_nat idx @ ''. '' @ py_str r text)) question_style of
        Inl e \<Rightarrow> Inl e
      | Inr stem \<Rightarrow>
     (case py_getitem q ''options'' of
        Inl e \<Rightarrow> Inl e
      | Inr opts \<Rightarrow>
     (case py_getitem opts ''A'' of
        Inl e \<Rightarrow> Inl e
      | Inr a \<Rightarrow>
     (case make_paragraph lib (JStr (''A) '' @ py_str r a)) option_style of
        Inl e \<Rightarrow> Inl e
      | Inr pa \<Rightarrow>
     (case py_getitem opts ''B'' of
        Inl e \<Rightarrow> Inl e
      | Inr b \<Rightarrow>
     (case make_paragraph lib (JStr (''B) '' @ py_str r b)) option_style of
        Inl e \<Rightarrow> Inl e
      | Inr pb \<Rightarrow>
     (case py_getitem opts ''C'' of
        Inl e \<Rightarrow> Inl e
      | Inr c \<Rightarrow>
     (case make_paragraph lib (JStr (''C) '' @ py_str r c)) option_style of
        Inl e \<Rightarrow> Inl e
      | Inr pc \<Rightarrow>
     (case py_getitem opts ''D'' of
        Inl e \<Rightarrow> Inl e
      | Inr d \<Rightarrow>
     (case make_paragraph lib (JStr (''D) '' @ py_str r d)) option_style of
        Inl e \<Rightarrow> Inl e
      | Inr pd \<Rightarrow>
          Inr (story @ [stem, pa, pb, pc, pd, Spacer (Pt 1) (Pt 4)]))))))))))))"

text \<open>\<^verbatim>\<open>for idx, q in enumerate(data["questions"], start=1)\<close>.\<close>

fun append_questions ::
  "(json \<Rightarrow> style \<Rightarrow> bool) \<Rightarrow> (json \<Rightarrow> string) \<Rightarrow> flowable list \<Rightarrow> nat \<Rightarrow> json list \<Rightarrow>
     py_error + flowable list" where
  "append_questions lib r story idx [] = Inr story"
| "append_questions lib r story idx (q # qs) =
     (case append_question lib r story idx q of
        Inl e \<Rightarrow> Inl e
      | Inr story' \<Rightarrow> append_questions lib r story' (Suc idx) qs)"

text \<open>The body of the loop over the solution rows (lines 153 to 156).\<close>

definition append_row ::
  "(json \<Rightarrow> string) \<Rightarrow> string list list \<Rightarrow> json \<Rightarrow> py_error + string list list" where
  "append_row r table_data row =
     (case py_get row ''number'' (JStr []) of
        Inl e \<Rightarrow> Inl e
      | Inr num \<Rightarrow>
     (case py_get row ''answer'' (JStr []) of
        Inl e \<Rightarrow> Inl e
      | Inr ans \<Rightarrow>
     (case py_get row ''explanation'' (JStr []) of
        Inl e \<Rightarrow> Inl e
      | Inr expl \<Rightarrow> Inr (table_data @ [[py_str r num, py_str r ans, py_str r expl]]))))"

fun append_rows ::
  "(json \<Rightarrow> string) \<Rightarrow> string list list \<Rightarrow> json list \<Rightarrow> py_error + string list list" where
  "append_rows r table_data [] = Inr table_data"
| "append_rows r table_data (row # rows) =
     (case append_row r table_data row of
        Inl e \<Rightarrow> Inl e
      | Inr table_data' \<Rightarrow> append_rows r table_data' rows)"

definition table_header :: "string list" where
  "table_header = [''#'', ''Answer'', ''Explanation'']"

text \<open>
  Lines 126 to 171 of \<^verbatim>\<open>build_pdf\<close>, in the order of the source: the story, or the first
  exception raised while it is built. \<^verbatim>\<open>story\<close> starts empty in every call.
\<close>

definition build_story ::
  "(json \<Rightarrow> style \<Rightarrow> bool) \<Rightarrow> (json \<Rightarrow> string) \<Rightarrow> json \<Rightarrow> py_error + flowable list" where
  "build_story lib r data =
     (case py_getitem data ''title'' of
        Inl e \<Rightarrow> Inl e
      | Inr title \<Rightarrow>
     (case make_paragraph lib title title_style of
        Inl e \<Rightarrow> Inl e
      | Inr title_par \<Rightarrow>
     (case py_getitem data ''subtitle'' of
        Inl e \<Rightarrow> Inl e
      | Inr subtitle \<Rightarrow>
     (case make_paragraph lib subtitle subtitle_style of
        Inl e \<Rightarrow> Inl e
      | Inr subtitle_par \<Rightarrow>
     (case make_paragraph lib (JStr ''Questions'') h2 of
        Inl e \<Rightarrow> Inl e
      | Inr questions_heading \<Rightarrow>
     (case py_getitem data ''questions'' of
        Inl e \<Rightarrow> Inl e
      | Inr questions \<Rightarrow>
     (case py_iter questions of
        Inl e \<Rightarrow> Inl e
      | Inr qs \<Rightarrow>
     (case append_questions lib r
             [Spacer (Pt 1) (Cm 6),
              title_par,
              subtitle_par,
              PageBreak,
              questions_heading,
              Spacer (Pt 1) (Pt 6)] 1 qs of
        Inl e \<Rightarrow> Inl e
      | Inr story \<Rightarrow>
     (case make_paragraph lib (JStr ''Solution Table'') h2 of
        Inl e \<Rightarrow> Inl e
      | Inr solution_heading \<Rightarrow>
     (case py_get data ''solution_table'' (JList []) of
        Inl e \<Rightarrow> Inl e
      | Inr solution_table \<Rightarrow>
     (case py_iter solution_table of
        Inl e \<Rightarrow> Inl e
      | Inr rows \<Rightarrow>
     (case append_rows r [table_header] rows of
        Inl e \<Rightarrow> Inl e
      | Inr table_data \<Rightarrow>
          Inr (story @
            [PageBreak,
             solution_heading,
             Table table_data col_widths table_style])))))))))))))"

text \<open>
  What \<^verbatim>\<open>build_pdf\<close> hands to the renderer: the output path, the document title
  (\<^verbatim>\<open>data.get("title", "Quiz")\<close>) and the story. Page size and margins are constants of
  the call.
\<close>

record render_request =
  req_path :: string
  req_title :: json
  req_story :: "flowable list"

definition build_pdf ::
  "(json \<Rightarrow> style \<Rightarrow> bool) \<Rightarrow> (json \<Rightarrow> string) \<Rightarrow> string \<Rightarrow> json \<Rightarrow> py_error + render_request" where
  "build_pdf lib r path data =
     (case build_story lib r data of
        Inl e \<Rightarrow> Inl e
      | Inr s \<Rightarrow>
          (case py_get data ''title'' (JStr ''Quiz'') of
             Inl e \<Rightarrow> Inl e
           | Inr t \<Rightarrow> Inr \<lparr>req_path = path, req_title = t, req_story = s\<rparr>))"

section \<open>The built-in sample\<close>

text \<open>
  \<^verbatim>\<open>SAMPLE_TEMPLATE\<close> (lines 33 to 65). A string is the list of the bytes of its UTF-8
  encoding: the dash of the title is U+2013, the hyphen of \<^verbatim>\<open>connection-oriented\<close> and
  \<^verbatim>\<open>128-bit\<close> is U+2011. Substring search and equality on the bytes agree with those on
  the code points.
\<close>

definition en_dash :: string where
  "en_dash = [CHR 0xE2, CHR 0x80, CHR 0x93]"

definition nb_hyphen :: string where
  "nb_hyphen = [CHR 0xE2, CHR 0x80, CHR 0x91]"

definition sample_question :: "string \<Rightarrow> string \<Rightarrow> string \<Rightarrow> string \<Rightarrow> string \<Rightarrow> json" where
  "sample_question text a b c d =
     JDict [(''text'', JStr text),
            (''options'', JDict [(''A'', JStr a), (''B'', JStr b), (''C'', JStr c), (''D'', JStr d)])]"

definition sample_row :: "int \<Rightarrow> string \<Rightarrow> string \<Rightarrow> json" where
  "sample_row n ans expl =
     JDict [(''number'', JInt n), (''answer'', JStr ans), (''explanation'', JStr expl)]"

definition SAMPLE_TEMPLATE :: json where
  "SAMPLE_TEMPLATE =
     JDict
      [(''title'', JStr (''Networking '' @ en_dash @ '' Practice Quiz (5 Questions)'')),
       (''subtitle'', JStr ''Sample: Basic Concepts''),
       (''questions'', JList
          [sample_question ''Which OSI layer is responsible for routing?''
             ''Physical'' ''Network'' ''Transport'' ''Application'',
           sample_question ''Which protocol translates domain names to IP addresses?''
             ''HTTP'' ''DNS'' ''FTP'' ''SSH'',
           sample_question ''Which device operates primarily at Layer 2 of the OSI model?''
             ''Router'' ''Switch'' ''Firewall'' ''Server'',
           sample_question ''Which IP version uses 128-bit addresses?''
             ''IPv4'' ''IPv6'' ''IPX'' ''ARP'',
           sample_question
             (''Which transport protocol provides reliable, connection'' @ nb_hyphen @
              ''oriented delivery?'')
             ''ICMP'' ''UDP'' ''TCP'' ''ARP'']),
       (''solution_table'', JList
          [sample_row 1 ''B'' ''Routing happens at the OSI Network (Layer 3).'',
           sample_row 2 ''B'' ''DNS resolves domain names to IP addresses.'',
           sample_row 3 ''B'' ''Switches primarily operate at Layer 2 (Data Link).'',
           sample_row 4 ''B'' (''IPv6 uses 128'' @ nb_hyphen @ ''bit addresses.''),
           sample_row 5 ''C'' (''TCP is reliable and connection'' @ nb_hyphen @ ''oriented.'')])]"

section \<open>The vocabulary of the specification\<close>

text \<open>
  The specification speaks of mappings, of the keys a mapping has, and of the fields of
  a question or a solution row. These readings are used to state the theorems; the
  functions above do not use them.
\<close>

fun is_mapping :: "json \<Rightarrow> bool" where
  "is_mapping (JDict kvs) = True"
| "is_mapping v = False"

fun has_key :: "json \<Rightarrow> string \<Rightarrow> bool" where
  "has_key (JDict kvs) k = (dict_lookup kvs k \<noteq> None)"
| "has_key v k = False"

text \<open>The value of a key of a mapping; \<open>JNull\<close> stands in where there is none.\<close>

fun field_of :: "json \<Rightarrow> string \<Rightarrow> json" where
  "field_of (JDict kvs) k = (case dict_lookup kvs k of Some v \<Rightarrow> v | None \<Rightarrow> JNull)"
| "field_of v k = JNull"

text \<open>
  A Question of the data model: a mapping with \<^verbatim>\<open>text\<close> and \<^verbatim>\<open>options\<close>, the options a
  mapping with all of A, B, C and D.
\<close>

definition well_formed_question :: "json \<Rightarrow> bool" where
  "well_formed_question q =
     (has_key q ''text'' \<and> has_key q ''options'' \<and>
      is_mapping (field_of q ''options'') \<and>
      list_all (has_key (field_of q ''options'')) option_letters)"

text \<open>Steps 1 to 6 of the recipe: the title page, the heading of the questions, a spacer.\<close>

definition spec_front :: "json \<Rightarrow> flowable list" where
  "spec_front data =
     [Spacer (Pt 1) (Cm 6),
      Paragraph (field_of data ''title'') title_style,
      Paragraph (field_of data ''subtitle'') subtitle_style,
      PageBreak,
      Paragraph (JStr ''Questions'') h2,
      Spacer (Pt 1) (Pt 6)]"

text \<open>Step 7 of the assembler's recipe, for the question at 1-based position \<open>i\<close>.\<close>

definition spec_question_group :: "(json \<Rightarrow> string) \<Rightarrow> nat \<Rightarrow> json \<Rightarrow> flowable list" where
  "spec_question_group r i q =
     [Paragraph (JStr (show_nat i @ ''. '' @ py_str r (field_of q ''text''))) question_style,
      Paragraph (JStr (''A) '' @ py_str r (field_of (field_of q ''options'') ''A''))) option_style,
      Paragraph (JStr (''B) '' @ py_str r (field_of (field_of q ''options'') ''B''))) option_style,
      Paragraph (JStr (''C) '' @ py_str r (field_of (field_of q ''options'') ''C''))) option_style,
      Paragraph (JStr (''D) '' @ py_str r (field_of (field_of q ''options'') ''D''))) option_style,
      Spacer (Pt 1) (Pt 4)]"

text \<open>
  One group for each question, in order, the positions counted from \<open>start\<close>
  (\<open>List.enumerate start qs\<close> pairs each question with its position).
\<close>

definition spec_question_groups :: "(json \<Rightarrow> string) \<Rightarrow> nat \<Rightarrow> json list \<Rightarrow> flowable list" where
  "spec_question_groups r start qs =
     concat (map (\<lambda>(i, q). spec_question_group r i q) (List.enumerate start qs))"

text \<open>A cell of a solution row: the display text of the field, empty when it is missing.\<close>

definition spec_cell :: "(json \<Rightarrow> string) \<Rightarrow> json \<Rightarrow> string \<Rightarrow> string" where
  "spec_cell r row k = (if has_key row k then py_str r (field_of row k) else [])"

definition spec_row :: "(json \<Rightarrow> string) \<Rightarrow> json \<Rightarrow> string list" where
  "spec_row r row =
     [spec_cell r row ''number'', spec_cell r row ''answer'', spec_cell r row ''explanation'']"

text \<open>Steps 8 to 10 of the recipe, for the rows of the table.\<close>

definition spec_back :: "string list list \<Rightarrow> flowable list" where
  "spec_back table_data =
     [PageBreak,
      Paragraph (JStr ''Solution Table'') h2,
      Table table_data col_widths table_style]"

text \<open>
  Two item lists of the same mapping, the keys in another order: no key occurs twice,
  and the items are the same.
\<close>

definition same_items :: "(string \<times> json) list \<Rightarrow> (string \<times> json) list \<Rightarrow> bool" where
  "same_items kvs kvs' =
     (distinct (map fst kvs) \<and> distinct (map fst kvs') \<and> set kvs = set kvs')"

fun is_table :: "flowable \<Rightarrow> bool" where
  "is_table (Table rows widths cmds) = True"
| "is_table f = False"

text \<open>A body paragraph: a paragraph in the style of a question stem or of an option.\<close>

fun is_body_paragraph :: "flowable \<Rightarrow> bool" where
  "is_body_paragraph (Paragraph t question_style) = True"
| "is_body_paragraph (Paragraph t option_style) = True"
| "is_body_paragraph f = False"

text \<open>
  The 1-based position, counted from \<open>i\<close>, of the first element that satisfies \<open>P\<close>.
\<close>

fun first_position :: "('a \<Rightarrow> bool) \<Rightarrow> nat \<Rightarrow> 'a list \<Rightarrow> nat option" where
  "first_position P i [] = None"
| "first_position P i (x # xs) = (if P x then Some i else first_position P (Suc i) xs)"

text \<open>Check 3 of the validator fails on a question: \<^verbatim>\<open>text\<close> or \<^verbatim>\<open>options\<close> is not a key.\<close>

definition lacks_fields :: "json \<Rightarrow> bool" where
  "lacks_fields q = (\<not> (has_key q ''text'' \<and> has_key q ''options''))"

text \<open>
  The shape that the declared types describe, as far as the validator reads it: a mapping
  whose \<^verbatim>\<open>questions\<close>, when it is a sequence, holds mappings only.
\<close>

fun all_mappings :: "json \<Rightarrow> bool" where
  "all_mappings (JList qs) = list_all is_mapping qs"
| "all_mappings v = True"

definition mapping_of_mappings :: "json \<Rightarrow> bool" where
  "mapping_of_mappings data = (is_mapping data \<and> all_mappings (field_of data ''questions''))"

text \<open>
  The reasons of the validator on an input with \<open>n\<close> questions: a missing top-level key
  by its name, the two reasons about \<^verbatim>\<open>questions\<close> and \<^verbatim>\<open>solution_table\<close>, and the two
  reasons about a question by its 1-based position.
\<close>

fun num_elements :: "json \<Rightarrow> nat" where
  "num_elements (JList xs) = length xs"
| "num_elements v = 0"

definition validator_reason :: "nat \<Rightarrow> string \<Rightarrow> bool" where
  "validator_reason n m =
     (m \<in> set (map (\<lambda>k. ''Missing top-level key: '' @ k) required_top) \<or>
      m = ''questions must be a non-empty list'' \<or>
      m \<in> set (map missing_fields_msg [1..<Suc n]) \<or>
      m \<in> set (map bad_options_msg [1..<Suc n]) \<or>
      m = ''solution_table must be a list'')"

text \<open>
  The library takes a flowable: it takes the text of a paragraph; the other flowables
  are not given a text.
\<close>

fun accepted :: "(json \<Rightarrow> style \<Rightarrow> bool) \<Rightarrow> flowable \<Rightarrow> bool" where
  "accepted lib (Paragraph text st) = lib text st"
| "accepted lib f = True"

fun elements :: "json \<Rightarrow> json list" where
  "elements (JList xs) = xs"
| "elements v = []"

text \<open>
  The library takes every paragraph text of the quiz: the title and the subtitle, the
  two headings, and the stem and the four options of every question.
\<close>

definition library_accepts :: "(json \<Rightarrow> style \<Rightarrow> bool) \<Rightarrow> (json \<Rightarrow> string) \<Rightarrow> json \<Rightarrow> bool" where
  "library_accepts lib r data =
     list_all (accepted lib)
       (spec_front data @
        spec_question_groups r 1 (elements (field_of data ''questions'')) @
        [Paragraph (JStr ''Solution Table'') h2])"

text \<open>
  A stand-in for the library on the inputs used below, where it agrees with the
  library: it takes a string that has neither \<^verbatim>\<open><\<close> nor \<^verbatim>\<open>&\<close>, and takes neither a value
  that is not a string nor the string \<^verbatim>\<open>1. <b>bold\<close>, whose markup is not closed. The
  library itself takes more strings than this, those with balanced markup.
\<close>

fun plain_text_library :: "json \<Rightarrow> style \<Rightarrow> bool" where
  "plain_text_library (JStr text) st = (CHR ''<'' \<notin> set text \<and> CHR ''&'' \<notin> set text)"
| "plain_text_library v st = False"

text \<open>A lookup returns a value.\<close>

fun succeeds :: "py_error + 'a \<Rightarrow> bool" where
  "succeeds (Inr v) = True"
| "succeeds (Inl e) = False"

text \<open>
  The subscriptions of the loop over the questions succeed on a question:
  \<^verbatim>\<open>q["text"]\<close>, \<^verbatim>\<open>q["options"]\<close> and \<^verbatim>\<open>opts["A"]\<close> to \<^verbatim>\<open>opts["D"]\<close>.
\<close>

definition question_lookups_succeed :: "json \<Rightarrow> bool" where
  "question_lookups_succeed q =
     (succeeds (py_getitem q ''text'') \<and>
      (case py_getitem q ''options'' of
         Inl e \<Rightarrow> False
       | Inr opts \<Rightarrow> list_all (\<lambda>k. succeeds (py_getitem opts k)) option_letters))"

text \<open>
  Three inputs used below. In the first, question 1 has an empty \<^verbatim>\<open>options\<close> mapping and
  question 2 has no field at all. The second is a quiz of one well-formed question with
  the given elements in its \<^verbatim>\<open>solution_table\<close>. The third is a quiz of one well-formed
  question whose text opens a \<^verbatim>\<open><b>\<close> that it does not close.
\<close>

definition interleaved_questions :: "json list" where
  "interleaved_questions =
     [JDict [(''text'', JStr ''first''), (''options'', JDict [])],
      JDict []]"

definition interleaved_quiz :: json where
  "interleaved_quiz =
     JDict
      [(''title'', JStr ''T''),
       (''subtitle'', JStr ''S''),
       (''questions'', JList interleaved_questions),
       (''solution_table'', JList [])]"

definition one_question_quiz :: "json list \<Rightarrow> json" where
  "one_question_quiz rows =
     JDict
      [(''title'', JStr ''T''),
       (''subtitle'', JStr ''S''),
       (''questions'', JList [sample_question ''Q'' ''a'' ''b'' ''c'' ''d'']),
       (''solution_table'', JList rows)]"

definition markup_quiz :: json where
  "markup_quiz =
     JDict
      [(''title'', JStr ''T''),
       (''subtitle'', JStr ''S''),
       (''questions'', JList [sample_question ''<b>bold'' ''a'' ''b'' ''c'' ''d'']),
       (''solution_table'', JList [])]"

section \<open>Properties\<close>

subsection \<open>The Python operations on a mapping\<close>

lemma py_in_mapping: "is_mapping data \<Longrightarrow> py_in k data = Inr (has_key data k)"
  by (cases data) simp_all

lemma py_getitem_Inr:
  "py_getitem data k = Inr v \<Longrightarrow> is_mapping data \<and> has_key data k \<and> field_of data k = v"
  by (cases data) (auto split: option.splits)

lemma py_getitem_mapping:
  "is_mapping data \<Longrightarrow> has_key data k \<Longrightarrow> py_getitem data k = Inr (field_of data k)"
  by (cases data) (auto split: option.splits)

lemma py_get_mapping:
  "is_mapping data \<Longrightarrow> py_get data k dflt = Inr (if has_key data k then field_of data k else dflt)"
  by (cases data) (auto split: option.splits)

lemma py_get_not_mapping: "\<not> is_mapping v \<Longrightarrow> py_get v k dflt = Inl AttributeError"
  by (cases v) simp_all

lemma has_key_is_mapping: "has_key v k \<Longrightarrow> is_mapping v"
  by (cases v) simp_all

subsection \<open>The validator on a mapping\<close>

lemma options_complete:
  "options_incomplete v \<longleftrightarrow> \<not> (is_mapping v \<and> list_all (has_key v) option_letters)"
  by (cases v) (simp_all add: option_letters_def)

lemma check_required_top_mapping:
  "is_mapping data \<Longrightarrow>
   check_required_top ks data =
     (case List.find (\<lambda>k. \<not> has_key data k) ks of
        None \<Rightarrow> Inr ()
      | Some k \<Rightarrow> Inl (ValueError (''Missing top-level key: '' @ k)))"
  by (induction ks) (simp_all add: py_in_mapping)

lemma check_question_mapping:
  "is_mapping q \<Longrightarrow>
   check_question i q =
     (if lacks_fields q then Inl (ValueError (missing_fields_msg i))
      else if well_formed_question q then Inr ()
      else Inl (ValueError (bad_options_msg i)))"
  unfolding check_question_def lacks_fields_def well_formed_question_def
  by (auto simp: py_in_mapping py_getitem_mapping options_complete)

lemma check_question_ok: "check_question i q = Inr u \<Longrightarrow> well_formed_question q"
proof -
  assume ok: "check_question i q = Inr u"
  have "is_mapping q"
    using ok unfolding check_question_def
    by (auto split: sum.splits if_splits dest: py_getitem_Inr)
  then show ?thesis
    using ok by (simp add: check_question_mapping split: if_splits)
qed

lemma well_formed_is_mapping: "well_formed_question q \<Longrightarrow> is_mapping q"
  unfolding well_formed_question_def by (auto dest: has_key_is_mapping)

lemma check_question_well_formed: "well_formed_question q \<Longrightarrow> check_question i q = Inr ()"
  by (frule well_formed_is_mapping)
     (simp add: check_question_mapping lacks_fields_def well_formed_question_def)

lemma check_questions_ok: "check_questions i qs = Inr u \<Longrightarrow> list_all well_formed_question qs"
  by (induction qs arbitrary: i) (auto split: sum.splits dest: check_question_ok)

lemma check_questions_well_formed: "list_all well_formed_question qs \<Longrightarrow> check_questions i qs = Inr ()"
  by (induction qs arbitrary: i) (simp_all add: check_question_well_formed)

lemma check_questions_first_failure:
  "list_all well_formed_question pre \<Longrightarrow> check_question (i + length pre) q = Inl e \<Longrightarrow>
   check_questions i (pre @ q # post) = Inl e"
  by (induction pre arbitrary: i) (simp_all add: check_question_well_formed)

lemma validate_mapping:
  "is_mapping data \<Longrightarrow>
   validate_quiz_schema data =
     (case List.find (\<lambda>k. \<not> has_key data k) required_top of
        Some k \<Rightarrow> Inl (ValueError (''Missing top-level key: '' @ k))
      | None \<Rightarrow>
          (case field_of data ''questions'' of
             JList qs \<Rightarrow>
               if qs = [] then Inl (ValueError ''questions must be a non-empty list'')
               else
                 (case check_questions 1 qs of
                    Inl e \<Rightarrow> Inl e
                  | Inr u \<Rightarrow>
                      (case field_of data ''solution_table'' of
                         JList rows \<Rightarrow> Inr True
                       | other \<Rightarrow> Inl (ValueError ''solution_table must be a list'')))
           | other \<Rightarrow> Inl (ValueError ''questions must be a non-empty list'')))"
proof (cases "List.find (\<lambda>k. \<not> has_key data k) required_top")
  case (Some k)
  assume "is_mapping data"
  then show ?thesis
    using Some by (simp add: validate_quiz_schema_def check_required_top_mapping)
next
  case None
  assume m: "is_mapping data"
  from None have keys: "has_key data ''questions''" "has_key data ''solution_table''"
    by (auto simp: required_top_def split: if_splits)
  show ?thesis
    using m None keys
    by (simp add: validate_quiz_schema_def check_required_top_mapping py_getitem_mapping
             split: json.splits sum.splits)
qed

lemma validate_ok_mapping: "validate_quiz_schema data = Inr b \<Longrightarrow> is_mapping data"
  unfolding validate_quiz_schema_def
  by (auto split: sum.splits dest: py_getitem_Inr)

lemma validate_okD:
  assumes "validate_quiz_schema data = Inr b"
  shows "is_mapping data"
    and "list_all (has_key data) required_top"
    and "\<exists>qs. field_of data ''questions'' = JList qs \<and> qs \<noteq> [] \<and> list_all well_formed_question qs"
    and "\<exists>rows. field_of data ''solution_table'' = JList rows"
proof -
  show m: "is_mapping data" using assms by (rule validate_ok_mapping)
  have f: "List.find (\<lambda>k. \<not> has_key data k) required_top = None"
    using assms m by (simp add: validate_mapping split: option.splits)
  then show "list_all (has_key data) required_top"
    by (auto simp: required_top_def split: if_splits)
  show "\<exists>qs. field_of data ''questions'' = JList qs \<and> qs \<noteq> [] \<and> list_all well_formed_question qs"
    using assms m f
    by (auto simp: validate_mapping split: json.splits if_splits sum.splits dest: check_questions_ok)
  show "\<exists>rows. field_of data ''solution_table'' = JList rows"
    using assms m f
    by (auto simp: validate_mapping split: json.splits if_splits sum.splits)
qed

subsection \<open>The assembler on well-formed input\<close>

lemma well_formedD:
  assumes "well_formed_question q"
  shows "is_mapping q" "has_key q ''text''" "has_key q ''options''"
    "is_mapping (field_of q ''options'')"
    "has_key (field_of q ''options'') ''A''" "has_key (field_of q ''options'') ''B''"
    "has_key (field_of q ''options'') ''C''" "has_key (field_of q ''options'') ''D''"
  using assms unfolding well_formed_question_def option_letters_def
  by (auto dest: has_key_is_mapping)

lemma append_question_well_formed:
  "well_formed_question q \<Longrightarrow>
   append_question lib r story idx q =
     (if list_all (accepted lib) (spec_question_group r idx q)
      then Inr (story @ spec_question_group r idx q)
      else Inl LibraryError)"
  unfolding append_question_def spec_question_group_def make_paragraph_def
  by (simp add: well_formedD py_getitem_mapping)

lemma append_questions_well_formed:
  "list_all well_formed_question qs \<Longrightarrow>
   append_questions lib r story i qs =
     (if list_all (accepted lib) (spec_question_groups r i qs)
      then Inr (story @ spec_question_groups r i qs)
      else Inl LibraryError)"
  by (induction qs arbitrary: story i)
     (simp_all add: append_question_well_formed spec_question_groups_def enumerate_simps)

lemma body_paragraphs_group: "length (filter is_body_paragraph (spec_question_group r i q)) = 5"
  by (simp add: spec_question_group_def)

lemma body_paragraphs_groups:
  "length (filter is_body_paragraph (spec_question_groups r i qs)) = 5 * length qs"
  by (induction qs arbitrary: i)
     (simp_all add: spec_question_groups_def body_paragraphs_group)

lemma append_row_mapping:
  "is_mapping row \<Longrightarrow> append_row r table_data row = Inr (table_data @ [spec_row r row])"
  unfolding append_row_def spec_row_def spec_cell_def
  by (simp add: py_get_mapping)

lemma append_row_not_mapping:
  "\<not> is_mapping row \<Longrightarrow> append_row r table_data row = Inl AttributeError"
  unfolding append_row_def by (simp add: py_get_not_mapping)

lemma append_rows_mappings:
  "list_all is_mapping rows \<Longrightarrow>
   append_rows r table_data rows = Inr (table_data @ map (spec_row r) rows)"
  by (induction rows arbitrary: table_data) (simp_all add: append_row_mapping)

lemma append_rows_error: "append_rows r table_data rows = Inl e \<Longrightarrow> e = AttributeError"
proof (induction rows arbitrary: table_data)
  case Nil
  then show ?case by simp
next
  case (Cons row rows)
  then show ?case
    by (cases "is_mapping row") (auto simp: append_row_mapping append_row_not_mapping)
qed

lemma build_story_validated:
  assumes ok: "validate_quiz_schema data = Inr b"
    and qs: "field_of data ''questions'' = JList qs"
    and rows: "field_of data ''solution_table'' = JList rows"
  shows "build_story lib r data =
     (if library_accepts lib r data
      then
        (case append_rows r [table_header] rows of
           Inl e \<Rightarrow> Inl e
         | Inr table_data \<Rightarrow>
             Inr (spec_front data @ spec_question_groups r 1 qs @ spec_back table_data))
      else Inl LibraryError)"
proof -
  note d = validate_okD [OF ok]
  from d(2) have keys: "has_key data ''title''" "has_key data ''subtitle''"
    "has_key data ''questions''" "has_key data ''solution_table''"
    by (simp_all add: required_top_def)
  from d(3) qs have wf: "list_all well_formed_question qs" by auto
  show ?thesis
    unfolding build_story_def library_accepts_def
    using d(1) keys qs rows
    by (simp add: py_getitem_mapping py_get_mapping append_questions_well_formed [OF wf]
          make_paragraph_def spec_front_def spec_back_def split: sum.splits)
qed

subsection \<open>The digit of position 1\<close>

lemma show_nat_1: "show_nat (Suc 0) = ''1''"
  by code_simp

section \<open>The claims about the validator\<close>

lemma find_missing: "\<not> list_all P ks \<Longrightarrow> \<exists>k. List.find (\<lambda>k. \<not> P k) ks = Some k"
  by (induction ks) auto

lemma all_keys_mapping:
  assumes "list_all (has_key data) required_top"
  shows "is_mapping data" and "List.find (\<lambda>k. \<not> has_key data k) required_top = None"
proof -
  from assms have "has_key data ''title''" by (simp add: required_top_def)
  then show "is_mapping data" by (rule has_key_is_mapping)
  from assms show "List.find (\<lambda>k. \<not> has_key data k) required_top = None"
    by (simp add: required_top_def)
qed

text \<open>
  C4, as the code has it. A mapping that lacks one of \<^verbatim>\<open>title\<close>, \<^verbatim>\<open>subtitle\<close>,
  \<^verbatim>\<open>questions\<close>, \<^verbatim>\<open>solution_table\<close> is rejected with the reason
  \<^verbatim>\<open>Missing top-level key: k\<close>, where \<open>k\<close> is the first of the four, in that order, that
  is not a key of the mapping (\<open>List.find\<close> returns the first element of the list that
  satisfies the test). The result is that \<^verbatim>\<open>ValueError\<close> and nothing else.
\<close>

theorem first_missing_key_reported:
  assumes "is_mapping data"
    and "\<not> list_all (has_key data) required_top"
  shows "\<exists>k. List.find (\<lambda>k. \<not> has_key data k) required_top = Some k \<and>
    validate_quiz_schema data = Inl (ValueError (''Missing top-level key: '' @ k))"
proof -
  from assms(2) obtain k where "List.find (\<lambda>k. \<not> has_key data k) required_top = Some k"
    using find_missing by blast
  then show ?thesis using assms(1) by (simp add: validate_mapping)
qed

text \<open>
  The mapping \<^verbatim>\<open>{"solution_table": [], "title": "T"}\<close> lacks \<^verbatim>\<open>subtitle\<close> and \<^verbatim>\<open>questions\<close>;
  \<^verbatim>\<open>subtitle\<close> comes first in the fixed order and is the one reported.
\<close>

theorem first_missing_key_reported_witness:
  "is_mapping (JDict [(''solution_table'', JList []), (''title'', JStr ''T'')]) \<and>
   \<not> list_all (has_key (JDict [(''solution_table'', JList []), (''title'', JStr ''T'')]))
       required_top \<and>
   validate_quiz_schema (JDict [(''solution_table'', JList []), (''title'', JStr ''T'')]) =
     Inl (ValueError ''Missing top-level key: subtitle'')"
  using first_missing_key_reported
    [of "JDict [(''solution_table'', JList []), (''title'', JStr ''T'')]"]
  by (simp add: required_top_def)

text \<open>
  C4, for every input value, fails on \<^verbatim>\<open>None\<close>, which \<^verbatim>\<open>json.loads\<close> returns for the text
  \<^verbatim>\<open>null\<close>. It has none of the four keys, and the validator does not report
  \<^verbatim>\<open>title\<close> as missing: the membership test \<^verbatim>\<open>"title" not in data\<close> raises a \<^verbatim>\<open>TypeError\<close>.
  The parameter is declared as \<^verbatim>\<open>data: dict\<close>.
\<close>

theorem null_input_counterexample:
  "\<not> has_key JNull ''title'' \<and> validate_quiz_schema JNull = Inl TypeError"
  by (simp add: validate_quiz_schema_def required_top_def)

text \<open>
  C5. An input that has all four top-level keys and whose \<^verbatim>\<open>questions\<close> is the empty
  sequence is rejected with the reason \<^verbatim>\<open>questions must be a non-empty list\<close>, whatever
  the values of the other three keys are.
\<close>

theorem empty_questions_rejected:
  assumes "list_all (has_key data) required_top"
    and "field_of data ''questions'' = JList []"
  shows "validate_quiz_schema data = Inl (ValueError ''questions must be a non-empty list'')"
  using all_keys_mapping [OF assms(1)] assms(2) by (simp add: validate_mapping)

text \<open>
  Here the subtitle is a number and the solution table a string, neither of the declared
  type; the reason is still the one about \<^verbatim>\<open>questions\<close>.
\<close>

theorem empty_questions_rejected_witness:
  "list_all (has_key (JDict [(''title'', JStr ''T''), (''subtitle'', JInt 3),
       (''questions'', JList []), (''solution_table'', JStr ''none'')])) required_top \<and>
   validate_quiz_schema (JDict [(''title'', JStr ''T''), (''subtitle'', JInt 3),
       (''questions'', JList []), (''solution_table'', JStr ''none'')]) =
     Inl (ValueError ''questions must be a non-empty list'')"
  using empty_questions_rejected
    [of "JDict [(''title'', JStr ''T''), (''subtitle'', JInt 3),
       (''questions'', JList []), (''solution_table'', JStr ''none'')]"]
  by (simp add: required_top_def)

text \<open>
  C3, as the code has it. Checks 3 and 4 are not two passes over the questions: the loop
  applies both to a question before it looks at the next one. With all four top-level
  keys present, let \<open>q\<close> be a question that is a mapping and is not well formed, after
  well-formed questions \<open>pre\<close> only. Then \<open>q\<close> is the question reported, by its 1-based
  position, with the reason of check 3 when it lacks \<^verbatim>\<open>text\<close> or \<^verbatim>\<open>options\<close> and with the
  reason of check 4 otherwise; the questions after \<open>q\<close> are not examined.
\<close>

theorem first_failing_question_reported:
  assumes "list_all (has_key data) required_top"
    and "field_of data ''questions'' = JList (pre @ q # post)"
    and "list_all well_formed_question pre"
    and "is_mapping q"
    and "\<not> well_formed_question q"
  shows "validate_quiz_schema data =
    Inl (ValueError (if lacks_fields q then missing_fields_msg (Suc (length pre))
                     else bad_options_msg (Suc (length pre))))"
proof -
  have "check_question (1 + length pre) q =
    Inl (ValueError (if lacks_fields q then missing_fields_msg (Suc (length pre))
                     else bad_options_msg (Suc (length pre))))"
    using assms(4,5) by (simp add: check_question_mapping)
  then have "check_questions 1 (pre @ q # post) =
    Inl (ValueError (if lacks_fields q then missing_fields_msg (Suc (length pre))
                     else bad_options_msg (Suc (length pre))))"
    using assms(3) by (rule check_questions_first_failure [rotated])
  then show ?thesis
    using all_keys_mapping [OF assms(1)] assms(2) by (simp add: validate_mapping)
qed

text \<open>
  C3, as the specification words it, fails on \<open>interleaved_quiz\<close>. Its second question
  has neither \<^verbatim>\<open>text\<close> nor \<^verbatim>\<open>options\<close>, so check 3 applied to every question would report
  position 2 before check 4 reports anything. The validator reports question 1, whose
  \<^verbatim>\<open>options\<close> mapping is empty, with the reason of check 4.
\<close>

theorem checks_interleaved_counterexample:
  "field_of interleaved_quiz ''questions'' = JList interleaved_questions \<and>
   first_position lacks_fields 1 interleaved_questions = Some 2 \<and>
   validate_quiz_schema interleaved_quiz =
     Inl (ValueError ''Question 1 options must include A, B, C, D'')"
  by (simp add: interleaved_quiz_def interleaved_questions_def lacks_fields_def
        validate_quiz_schema_def required_top_def check_question_def bad_options_msg_def
        option_letters_def show_nat_1)

text \<open>
  The same input in the theorem: no question before the first, which is a mapping and
  is not well formed, and does not lack a field.
\<close>

theorem first_failing_question_reported_witness:
  "list_all (has_key interleaved_quiz) required_top \<and>
   field_of interleaved_quiz ''questions'' =
     JList ([] @ JDict [(''text'', JStr ''first''), (''options'', JDict [])] # [JDict []]) \<and>
   \<not> well_formed_question (JDict [(''text'', JStr ''first''), (''options'', JDict [])]) \<and>
   validate_quiz_schema interleaved_quiz = Inl (ValueError (bad_options_msg 1))"
  using first_failing_question_reported
    [of interleaved_quiz "[]" "JDict [(''text'', JStr ''first''), (''options'', JDict [])]"
        "[JDict []]"]
  by (simp add: interleaved_quiz_def interleaved_questions_def required_top_def
        well_formed_question_def lacks_fields_def option_letters_def)

lemma check_questions_reason:
  "list_all is_mapping qs \<Longrightarrow> check_questions i qs = Inl e \<Longrightarrow>
   \<exists>j. i \<le> j \<and> j < i + length qs \<and>
     (e = ValueError (missing_fields_msg j) \<or> e = ValueError (bad_options_msg j))"
proof (induction qs arbitrary: i)
  case Nil
  then show ?case by simp
next
  case (Cons q qs)
  show ?case
  proof (cases "check_question i q")
    case (Inl e')
    with Cons.prems have "e' = e" by simp
    with Inl Cons.prems(1)
    have "e = ValueError (missing_fields_msg i) \<or> e = ValueError (bad_options_msg i)"
      by (auto simp: check_question_mapping split: if_splits)
    then show ?thesis by auto
  next
    case (Inr u)
    with Cons.prems have "check_questions (Suc i) qs = Inl e" "list_all is_mapping qs" by simp_all
    from Cons.IH [OF this(2,1)] obtain j where "Suc i \<le> j" "j < Suc i + length qs"
      "e = ValueError (missing_fields_msg j) \<or> e = ValueError (bad_options_msg j)" by blast
    then show ?thesis by (intro exI [of _ j]) auto
  qed
qed

lemma find_Some_member: "List.find P ks = Some k \<Longrightarrow> k \<in> set ks"
  by (induction ks) (auto split: if_splits)

text \<open>
  C8, as the code has it. On a mapping whose \<^verbatim>\<open>questions\<close>, when it is a sequence, holds
  mappings only, the validator returns \<^verbatim>\<open>True\<close> or raises a \<^verbatim>\<open>ValueError\<close> with one of its
  reasons, and nothing else.
\<close>

theorem validator_reasons_on_mappings:
  assumes "mapping_of_mappings data"
  shows "validate_quiz_schema data = Inr True \<or>
    (\<exists>m. validate_quiz_schema data = Inl (ValueError m) \<and>
         validator_reason (num_elements (field_of data ''questions'')) m)"
proof -
  from assms have m: "is_mapping data" and qm: "all_mappings (field_of data ''questions'')"
    by (simp_all add: mapping_of_mappings_def)
  let ?n = "num_elements (field_of data ''questions'')"
  show ?thesis
  proof (cases "List.find (\<lambda>k. \<not> has_key data k) required_top")
    case (Some k)
    then have "k \<in> set required_top" by (rule find_Some_member)
    then have "validator_reason ?n (''Missing top-level key: '' @ k)"
      by (simp add: validator_reason_def)
    then show ?thesis using m Some by (simp add: validate_mapping)
  next
    case None
    have fixed: "validator_reason ?n ''questions must be a non-empty list''"
      "validator_reason ?n ''solution_table must be a list''"
      by (simp_all add: validator_reason_def)
    show ?thesis
    proof (cases "field_of data ''questions''")
      case (JList qs)
      with qm have maps: "list_all is_mapping qs" by simp
      show ?thesis
      proof (cases "check_questions 1 qs")
        case (Inl e)
        from check_questions_reason [OF maps Inl] obtain j where j: "1 \<le> j" "j < 1 + length qs"
          "e = ValueError (missing_fields_msg j) \<or> e = ValueError (bad_options_msg j)" by blast
        from j(1,2) have "j \<in> set [1..<Suc (length qs)]" by auto
        then have "validator_reason (length qs) (missing_fields_msg j)"
          "validator_reason (length qs) (bad_options_msg j)"
          by (simp_all add: validator_reason_def del: upt_Suc)
        then show ?thesis
          using m None JList Inl j(3) fixed by (auto simp: validate_mapping)
      next
        case (Inr u)
        then show ?thesis
          using m None JList fixed by (auto simp: validate_mapping split: json.splits)
      qed
    qed (use m None fixed in \<open>simp_all add: validate_mapping\<close>)
  qed
qed

text \<open>
  C8, for a value of unconstrained shape, fails on the number 5, which \<^verbatim>\<open>json.loads\<close>
  returns for the text \<^verbatim>\<open>5\<close>: the first membership test raises a \<^verbatim>\<open>TypeError\<close>, which is
  not one of the validator's reasons.
\<close>

theorem scalar_input_counterexample:
  "validate_quiz_schema (JInt 5) = Inl TypeError"
  by (simp add: validate_quiz_schema_def required_top_def)

text \<open>
  \<open>interleaved_quiz\<close> is such a mapping, with two questions; it is rejected with one of
  the reasons.
\<close>

lemma validate_interleaved:
  "validate_quiz_schema interleaved_quiz = Inl (ValueError (bad_options_msg 1))"
  by (simp add: interleaved_quiz_def interleaved_questions_def validate_quiz_schema_def
        required_top_def check_question_def option_letters_def)

theorem validator_reasons_on_mappings_witness:
  "mapping_of_mappings interleaved_quiz \<and>
   (\<exists>m. validate_quiz_schema interleaved_quiz = Inl (ValueError m) \<and> validator_reason 2 m)"
proof -
  have shape: "mapping_of_mappings interleaved_quiz"
    by (simp add: mapping_of_mappings_def interleaved_quiz_def interleaved_questions_def)
  have n: "num_elements (field_of interleaved_quiz ''questions'') = 2"
    by (simp add: interleaved_quiz_def interleaved_questions_def)
  show ?thesis
    using validator_reasons_on_mappings [OF shape] shape n validate_interleaved by auto
qed

section \<open>The claims about the assembler\<close>

lemma validated_fields:
  assumes "validate_quiz_schema data = Inr b"
  obtains qs rows where "py_getitem data ''questions'' = Inr (JList qs)"
    and "py_getitem data ''solution_table'' = Inr (JList rows)"
    and "field_of data ''questions'' = JList qs"
    and "field_of data ''solution_table'' = JList rows"
    and "qs \<noteq> []" and "list_all well_formed_question qs"
proof -
  note d = validate_okD [OF assms]
  from d(3) obtain qs where qs: "field_of data ''questions'' = JList qs" "qs \<noteq> []"
    "list_all well_formed_question qs" by blast
  from d(4) obtain rows where rows: "field_of data ''solution_table'' = JList rows" by blast
  from d(2) have keys: "has_key data ''questions''" "has_key data ''solution_table''"
    by (simp_all add: required_top_def)
  have "py_getitem data ''questions'' = Inr (JList qs)"
    using d(1) keys(1) qs(1) by (simp add: py_getitem_mapping)
  moreover have "py_getitem data ''solution_table'' = Inr (JList rows)"
    using d(1) keys(2) rows by (simp add: py_getitem_mapping)
  ultimately show thesis using qs rows that by blast
qed

lemma well_formed_lookups: "well_formed_question q \<Longrightarrow> question_lookups_succeed q"
  unfolding question_lookups_succeed_def
  by (simp add: well_formedD py_getitem_mapping option_letters_def)

lemma all_well_formed_lookups:
  "list_all well_formed_question qs \<Longrightarrow> list_all question_lookups_succeed qs"
  by (induction qs) (simp_all add: well_formed_lookups)

lemma validate_SAMPLE: "validate_quiz_schema SAMPLE_TEMPLATE = Inr True"
  by (simp add: validate_quiz_schema_def SAMPLE_TEMPLATE_def required_top_def
        check_question_def sample_question_def option_letters_def)

lemma library_accepts_SAMPLE: "library_accepts plain_text_library (\<lambda>v. []) SAMPLE_TEMPLATE"
  by code_simp

lemma validate_one_question: "validate_quiz_schema (one_question_quiz rows) = Inr True"
  by (simp add: validate_quiz_schema_def one_question_quiz_def required_top_def
        check_question_def sample_question_def option_letters_def)

lemma one_question_fields:
  "field_of (one_question_quiz rows) ''questions'' = JList [sample_question ''Q'' ''a'' ''b'' ''c'' ''d'']"
  "field_of (one_question_quiz rows) ''solution_table'' = JList rows"
  by (simp_all add: one_question_quiz_def)

lemma library_accepts_one_question:
  "library_accepts lib r (one_question_quiz rows) = library_accepts lib r (one_question_quiz [])"
  by (simp add: library_accepts_def one_question_quiz_def spec_front_def)

lemma library_accepts_one_question_plain:
  "library_accepts plain_text_library (\<lambda>v. []) (one_question_quiz [])"
  by code_simp

text \<open>
  C1. On an input that the validator accepts, every subscription that \<^verbatim>\<open>build_pdf\<close> makes
  while it builds the story finds its key: \<^verbatim>\<open>data["title"]\<close>, \<^verbatim>\<open>data["subtitle"]\<close> and
  \<^verbatim>\<open>data["questions"]\<close>, which is a list, then \<^verbatim>\<open>q["text"]\<close>, \<^verbatim>\<open>q["options"]\<close> and
  \<^verbatim>\<open>opts["A"]\<close> to \<^verbatim>\<open>opts["D"]\<close> for every question; \<^verbatim>\<open>data.get("solution_table", [])\<close> is a
  list, which the second loop can iterate. Whatever the library does with the texts,
  building the story does not end in a \<^verbatim>\<open>KeyError\<close> of a subscription.
\<close>

theorem validated_lookups_succeed:
  assumes "validate_quiz_schema data = Inr True"
  shows "(\<exists>title subtitle qs rows.
            py_getitem data ''title'' = Inr title \<and>
            py_getitem data ''subtitle'' = Inr subtitle \<and>
            py_getitem data ''questions'' = Inr (JList qs) \<and>
            list_all question_lookups_succeed qs \<and>
            py_get data ''solution_table'' (JList []) = Inr (JList rows)) \<and>
         (\<forall>k. build_story lib r data \<noteq> Inl (KeyError k))"
proof -
  from assms obtain qs rows where f: "py_getitem data ''questions'' = Inr (JList qs)"
    "py_getitem data ''solution_table'' = Inr (JList rows)"
    "field_of data ''questions'' = JList qs"
    "field_of data ''solution_table'' = JList rows"
    "list_all well_formed_question qs"
    by (rule validated_fields)
  note d = validate_okD [OF assms]
  from d(2) have keys: "has_key data ''title''" "has_key data ''subtitle''"
    "has_key data ''solution_table''" by (simp_all add: required_top_def)
  have "py_getitem data ''title'' = Inr (field_of data ''title'')"
    "py_getitem data ''subtitle'' = Inr (field_of data ''subtitle'')"
    using d(1) keys by (simp_all add: py_getitem_mapping)
  moreover have "list_all question_lookups_succeed qs"
    using f(5) by (rule all_well_formed_lookups)
  moreover have "py_get data ''solution_table'' (JList []) = Inr (JList rows)"
    using d(1) keys(3) f(4) by (simp add: py_get_mapping)
  moreover have "build_story lib r data \<noteq> Inl (KeyError k)" for k
    using build_story_validated [OF assms f(3,4), of lib r]
    by (auto split: sum.splits if_splits dest: append_rows_error)
  ultimately show ?thesis using f(1) by blast
qed

text \<open>
  The sample is accepted; its questions are read, and building its story raises no
  \<^verbatim>\<open>KeyError\<close>.
\<close>

theorem validated_lookups_succeed_witness:
  "validate_quiz_schema SAMPLE_TEMPLATE = Inr True \<and>
   (\<exists>qs. py_getitem SAMPLE_TEMPLATE ''questions'' = Inr (JList qs) \<and>
      list_all question_lookups_succeed qs) \<and>
   (\<forall>k. build_story plain_text_library (\<lambda>v. []) SAMPLE_TEMPLATE \<noteq> Inl (KeyError k))"
  using validated_lookups_succeed [of SAMPLE_TEMPLATE plain_text_library "\<lambda>v. []"] validate_SAMPLE
  by blast

lemma dict_lookup_distinct: "distinct (map fst kvs) \<Longrightarrow> dict_lookup kvs k = map_of kvs k"
proof (induction kvs)
  case Nil
  then show ?case by simp
next
  case (Cons kv kvs)
  obtain k' v where kv: "kv = (k', v)" by (cases kv)
  from Cons.prems kv have fresh: "k' \<notin> fst ` set kvs" and d: "distinct (map fst kvs)" by auto
  from fresh have "map_of kvs k' = None" by (simp add: map_of_eq_None_iff)
  then show ?case
    using Cons.IH [OF d] kv by (cases "k' = k") (simp_all split: option.splits)
qed

lemma dict_lookup_same_items:
  assumes "same_items kvs kvs'"
  shows "dict_lookup kvs k = dict_lookup kvs' k"
proof -
  from assms have d: "distinct (map fst kvs)" "distinct (map fst kvs')" and s: "set kvs = set kvs'"
    by (simp_all add: same_items_def)
  from d s have "map_of kvs = map_of kvs'" by (simp add: map_of_inject_set)
  then show ?thesis using d by (simp add: dict_lookup_distinct)
qed

lemma append_question_same_items:
  assumes "same_items od od'"
  shows "append_question lib r story i (JDict [(''text'', t), (''options'', JDict od)]) =
   append_question lib r story i (JDict [(''text'', t), (''options'', JDict od')])"
proof -
  have eq: "dict_lookup od k = dict_lookup od' k" for k
    using assms by (rule dict_lookup_same_items)
  show ?thesis
    by (simp add: append_question_def eq cong: sum.case_cong)
qed

lemma library_accepts_groups:
  assumes "library_accepts lib r data" and "field_of data ''questions'' = JList qs"
  shows "list_all (accepted lib) (spec_question_groups r 1 qs)"
  using assms by (simp add: library_accepts_def)

text \<open>
  C2, as the code has it. Take an input that the validator accepts, with the questions
  \<open>qs\<close>, and a library that takes every paragraph text of it. The loop over the questions
  appends to the story one group for each question, in order: the stem \<^verbatim>\<open>{i}. {text}\<close>
  with the 1-based position \<open>i\<close>, then \<^verbatim>\<open>A) ...\<close>, \<^verbatim>\<open>B) ...\<close>, \<^verbatim>\<open>C) ...\<close>, \<^verbatim>\<open>D) ...\<close> in that
  order, then a spacer of 4 points. Every question is well formed, so each of these texts
  is that of a field the question has. The groups hold \<open>5 * length qs\<close> body paragraphs.
  The story that \<^verbatim>\<open>build_pdf\<close> goes on to finish is the front matter, these groups and the
  solution table, and nothing else; the one way not to finish it is an exception of the
  loop over the solution rows. An option is read by its key, so the order of the keys in
  the options mapping does not matter: two item lists of the same mapping give the same
  result, with any library.
\<close>

theorem question_groups_assembled:
  assumes "validate_quiz_schema data = Inr True"
    and "library_accepts lib r data"
  shows "(\<exists>qs rows.
            py_getitem data ''questions'' = Inr (JList qs) \<and>
            py_getitem data ''solution_table'' = Inr (JList rows) \<and>
            list_all well_formed_question qs \<and>
            append_questions lib r story 1 qs = Inr (story @ spec_question_groups r 1 qs) \<and>
            length (filter is_body_paragraph (spec_question_groups r 1 qs)) = 5 * length qs \<and>
            build_story lib r data =
              (case append_rows r [table_header] rows of
                 Inl e \<Rightarrow> Inl e
               | Inr table_data \<Rightarrow>
                   Inr (spec_front data @ spec_question_groups r 1 qs @ spec_back table_data))) \<and>
         (\<forall>i t od od'. same_items od od' \<longrightarrow>
            append_question lib r story i (JDict [(''text'', t), (''options'', JDict od)]) =
            append_question lib r story i (JDict [(''text'', t), (''options'', JDict od')]))"
proof -
  from assms(1) obtain qs rows where f: "py_getitem data ''questions'' = Inr (JList qs)"
    "py_getitem data ''solution_table'' = Inr (JList rows)"
    "field_of data ''questions'' = JList qs"
    "field_of data ''solution_table'' = JList rows"
    "list_all well_formed_question qs"
    by (rule validated_fields)
  have "build_story lib r data =
     (case append_rows r [table_header] rows of
        Inl e \<Rightarrow> Inl e
      | Inr table_data \<Rightarrow>
          Inr (spec_front data @ spec_question_groups r 1 qs @ spec_back table_data))"
    using build_story_validated [OF assms(1) f(3,4), of lib r] assms(2) by simp
  moreover have "append_questions lib r story 1 qs = Inr (story @ spec_question_groups r 1 qs)"
    using library_accepts_groups [OF assms(2) f(3)]
    by (simp add: append_questions_well_formed [OF f(5)])
  moreover have "length (filter is_body_paragraph (spec_question_groups r 1 qs)) = 5 * length qs"
    by (rule body_paragraphs_groups)
  ultimately show ?thesis
    using f(1,2,5) append_question_same_items by blast
qed

text \<open>
  C2, for every input that the validator accepts, fails on \<open>markup_quiz\<close>. The validator
  accepts it. Its one question has the text \<^verbatim>\<open><b>bold\<close>; \<^verbatim>\<open>Paragraph\<close> does not take the stem
  \<^verbatim>\<open>1. <b>bold\<close> and raises at line 139, so that no group is made and no story returned.
\<close>

theorem markup_question_counterexample:
  "validate_quiz_schema markup_quiz = Inr True \<and>
   field_of markup_quiz ''questions'' = JList [sample_question ''<b>bold'' ''a'' ''b'' ''c'' ''d''] \<and>
   \<not> plain_text_library (JStr ''1. <b>bold'') question_style \<and>
   append_questions plain_text_library (\<lambda>v. []) [] 1
     [sample_question ''<b>bold'' ''a'' ''b'' ''c'' ''d''] = Inl LibraryError \<and>
   build_story plain_text_library (\<lambda>v. []) markup_quiz = Inl LibraryError"
  by code_simp

text \<open>
  The sample and the stand-in library, which takes all its texts: its five questions are
  read, and the loop started on the empty story returns their five groups.
\<close>

theorem question_groups_assembled_witness:
  "validate_quiz_schema SAMPLE_TEMPLATE = Inr True \<and>
   library_accepts plain_text_library (\<lambda>v. []) SAMPLE_TEMPLATE \<and>
   (\<exists>qs. py_getitem SAMPLE_TEMPLATE ''questions'' = Inr (JList qs) \<and>
      length qs = 5 \<and>
      append_questions plain_text_library (\<lambda>v. []) [] 1 qs =
        Inr (spec_question_groups (\<lambda>v. []) 1 qs) \<and>
      length (filter is_body_paragraph (spec_question_groups (\<lambda>v. []) 1 qs)) = 25)"
  using question_groups_assembled [of SAMPLE_TEMPLATE plain_text_library "\<lambda>v. []" "[]"]
    validate_SAMPLE library_accepts_SAMPLE
  by (auto simp: SAMPLE_TEMPLATE_def)

lemma no_table_in_groups: "filter is_table (spec_question_groups r i qs) = []"
  by (induction qs arbitrary: i)
     (simp_all add: spec_question_groups_def spec_question_group_def)

lemma no_page_break_in_groups: "count_list (spec_question_groups r i qs) PageBreak = 0"
  by (induction qs arbitrary: i)
     (simp_all add: spec_question_groups_def spec_question_group_def)

text \<open>
  C6, as the code has it. Take an input that the validator accepts, whose solution rows
  are all mappings, and a library that takes every paragraph text of it. The story ends
  with a table and holds no other table. The first row of the table is \<^verbatim>\<open>#\<close>, \<^verbatim>\<open>Answer\<close>,
  \<^verbatim>\<open>Explanation\<close>; then comes one row for each solution row, in order, with the display
  text of \<^verbatim>\<open>number\<close>, \<^verbatim>\<open>answer\<close> and \<^verbatim>\<open>explanation\<close>, the empty text for a field the row does
  not have. With no solution row the table is the header row alone.
\<close>

theorem solution_table_assembled:
  assumes "validate_quiz_schema data = Inr True"
    and "py_getitem data ''solution_table'' = Inr (JList rows)"
    and "list_all is_mapping rows"
    and "library_accepts lib r data"
  shows "\<exists>front. build_story lib r data =
      Inr (front @ [Table (table_header # map (spec_row r) rows) col_widths table_style]) \<and>
    filter is_table front = []"
proof -
  from assms(1) obtain qs rows' where f: "py_getitem data ''solution_table'' = Inr (JList rows')"
    "field_of data ''questions'' = JList qs"
    "field_of data ''solution_table'' = JList rows'"
    by (rule validated_fields)
  from f(1) assms(2) have "rows' = rows" by simp
  with f have fields: "field_of data ''questions'' = JList qs"
    "field_of data ''solution_table'' = JList rows" by simp_all
  have "build_story lib r data =
      Inr ((spec_front data @ spec_question_groups r 1 qs @
            [PageBreak, Paragraph (JStr ''Solution Table'') h2]) @
           [Table (table_header # map (spec_row r) rows) col_widths table_style])"
    using build_story_validated [OF assms(1) fields, of lib r] assms(3,4)
    by (simp add: append_rows_mappings spec_back_def)
  moreover have "filter is_table (spec_front data @ spec_question_groups r 1 qs @
            [PageBreak, Paragraph (JStr ''Solution Table'') h2]) = []"
    by (simp add: spec_front_def no_table_in_groups)
  ultimately show ?thesis by blast
qed

text \<open>
  C6, for every input that the validator accepts, fails when a solution row is not a
  mapping. Here the row is the list \<^verbatim>\<open>[1, "B", "why"]\<close> and the texts are plain strings,
  which the library takes: the validator accepts the quiz, and \<^verbatim>\<open>row.get\<close> raises an
  \<^verbatim>\<open>AttributeError\<close>, so no table is made. The rows are documented as mappings, and the
  validator leaves them unchecked on purpose.
\<close>

theorem list_row_counterexample:
  "validate_quiz_schema (one_question_quiz [JList [JInt 1, JStr ''B'', JStr ''why'']]) = Inr True \<and>
   library_accepts plain_text_library (\<lambda>v. [])
     (one_question_quiz [JList [JInt 1, JStr ''B'', JStr ''why'']]) \<and>
   build_story plain_text_library (\<lambda>v. [])
     (one_question_quiz [JList [JInt 1, JStr ''B'', JStr ''why'']]) = Inl AttributeError"
  by code_simp

text \<open>
  Two accepted inputs, with the stand-in library: with no solution row the table is the
  header alone; a row that has only an \<^verbatim>\<open>answer\<close> gets empty text for its number and its
  explanation.
\<close>

theorem solution_table_assembled_witness:
  "validate_quiz_schema (one_question_quiz []) = Inr True \<and>
   library_accepts plain_text_library (\<lambda>v. []) (one_question_quiz []) \<and>
   (\<exists>front. build_story plain_text_library (\<lambda>v. []) (one_question_quiz []) =
      Inr (front @ [Table [table_header] col_widths table_style]) \<and>
      filter is_table front = []) \<and>
   validate_quiz_schema (one_question_quiz [JDict [(''answer'', JStr ''B'')]]) = Inr True \<and>
   (\<exists>front. build_story plain_text_library (\<lambda>v. [])
        (one_question_quiz [JDict [(''answer'', JStr ''B'')]]) =
      Inr (front @ [Table [table_header, ['''', ''B'', '''']] col_widths table_style]) \<and>
      filter is_table front = [])"
  using solution_table_assembled [of "one_question_quiz []" "[]" plain_text_library "\<lambda>v. []"]
    solution_table_assembled [of "one_question_quiz [JDict [(''answer'', JStr ''B'')]]"
      "[JDict [(''answer'', JStr ''B'')]]" plain_text_library "\<lambda>v. []"]
    validate_one_question library_accepts_one_question_plain
    library_accepts_one_question [of plain_text_library "\<lambda>v. []" "[JDict [(''answer'', JStr ''B'')]]"]
  by (simp add: one_question_quiz_def spec_row_def spec_cell_def)

text \<open>
  C7. The validator accepts \<^verbatim>\<open>SAMPLE_TEMPLATE\<close> as it is. With a library that takes its
  paragraph texts, the story built from it holds exactly 2 page breaks and exactly 25
  body paragraphs, 5 for each of its 5 questions.
\<close>

theorem sample_round_trip:
  assumes "library_accepts lib r SAMPLE_TEMPLATE"
  shows "validate_quiz_schema SAMPLE_TEMPLATE = Inr True \<and>
   (\<exists>s. build_story lib r SAMPLE_TEMPLATE = Inr s \<and>
      count_list s PageBreak = 2 \<and>
      length (filter is_body_paragraph s) = 25)"
proof -
  obtain qs rows where fields: "field_of SAMPLE_TEMPLATE ''questions'' = JList qs"
    "field_of SAMPLE_TEMPLATE ''solution_table'' = JList rows"
    and n: "length qs = 5" and m: "list_all is_mapping rows"
    by (simp add: SAMPLE_TEMPLATE_def sample_row_def)
  have "build_story lib r SAMPLE_TEMPLATE =
      Inr (spec_front SAMPLE_TEMPLATE @ spec_question_groups r 1 qs @
           spec_back (table_header # map (spec_row r) rows))"
    using build_story_validated [OF validate_SAMPLE fields, of lib r] m assms
    by (simp add: append_rows_mappings)
  moreover have "count_list (spec_front SAMPLE_TEMPLATE @ spec_question_groups r 1 qs @
           spec_back (table_header # map (spec_row r) rows)) PageBreak = 2"
    by (simp add: spec_front_def spec_back_def no_page_break_in_groups)
  moreover have "length (filter is_body_paragraph
          (spec_front SAMPLE_TEMPLATE @ spec_question_groups r 1 qs @
           spec_back (table_header # map (spec_row r) rows))) = 25"
    by (simp add: spec_front_def spec_back_def body_paragraphs_groups n)
  ultimately show ?thesis using validate_SAMPLE by simp
qed

text \<open>The texts of the sample are plain strings, which the stand-in library takes.\<close>

theorem sample_round_trip_witness:
  "library_accepts plain_text_library (\<lambda>v. []) SAMPLE_TEMPLATE \<and>
   validate_quiz_schema SAMPLE_TEMPLATE = Inr True \<and>
   (\<exists>s. build_story plain_text_library (\<lambda>v. []) SAMPLE_TEMPLATE = Inr s \<and>
      count_list s PageBreak = 2 \<and>
      length (filter is_body_paragraph s) = 25)"
  using sample_round_trip [OF library_accepts_SAMPLE] library_accepts_SAMPLE by simp

text \<open>
  The story of a call of \<^verbatim>\<open>build_pdf\<close> is the one \<open>build_story\<close> computes from the value: when
  the story is built \<^verbatim>\<open>data\<close> is a mapping, so \<^verbatim>\<open>data.get("title", "Quiz")\<close> cannot raise.
\<close>

lemma build_pdf_story: "map_sum id req_story (build_pdf lib r path data) = build_story lib r data"
proof (cases "build_story lib r data")
  case (Inl e)
  then show ?thesis by (simp add: build_pdf_def)
next
  case (Inr s)
  then have "is_mapping data"
    unfolding build_story_def by (auto split: sum.splits dest: py_getitem_Inr)
  then show ?thesis using Inr by (simp add: build_pdf_def py_get_mapping)
qed

text \<open>
  C10. There is an input that the validator accepts, with a solution row that is not a
  mapping, on which building the story raises an \<^verbatim>\<open>AttributeError\<close>: a quiz of one
  well-formed question whose \<^verbatim>\<open>solution_table\<close> is \<^verbatim>\<open>[5]\<close>. Its paragraph texts are plain
  strings; with a library that takes them, the story is built up to the solution rows,
  where \<^verbatim>\<open>row.get\<close> raises.
\<close>

theorem unvalidated_row_raises:
  assumes "library_accepts lib r (one_question_quiz [JInt 5])"
  shows "\<exists>data rows x.
     validate_quiz_schema data = Inr True \<and>
     py_getitem data ''solution_table'' = Inr (JList rows) \<and>
     x \<in> set rows \<and> \<not> is_mapping x \<and>
     build_story lib r data = Inl AttributeError"
proof -
  let ?d = "one_question_quiz [JInt 5]"
  have "build_story lib r ?d = Inl AttributeError"
    using build_story_validated [OF validate_one_question one_question_fields] assms
    by (simp add: append_row_not_mapping)
  moreover have "py_getitem ?d ''solution_table'' = Inr (JList [JInt 5])"
    by (simp add: one_question_quiz_def)
  moreover have "JInt 5 \<in> set [JInt 5]" "\<not> is_mapping (JInt 5)" by simp_all
  ultimately show ?thesis using validate_one_question by blast
qed

text \<open>The stand-in library takes the texts of that quiz.\<close>

theorem unvalidated_row_raises_witness:
  "library_accepts plain_text_library (\<lambda>v. []) (one_question_quiz [JInt 5]) \<and>
   (\<exists>data rows x.
     validate_quiz_schema data = Inr True \<and>
     py_getitem data ''solution_table'' = Inr (JList rows) \<and>
     x \<in> set rows \<and> \<not> is_mapping x \<and>
     build_story plain_text_library (\<lambda>v. []) data = Inl AttributeError)"
proof -
  have a: "library_accepts plain_text_library (\<lambda>v. []) (one_question_quiz [JInt 5])"
    using library_accepts_one_question_plain
    by (simp add: library_accepts_one_question [of _ _ "[JInt 5]"])
  show ?thesis using unvalidated_row_raises [OF a] a by simp
qed

end
